theory Spec2Isabelle
  imports Complex_Main "HOL-Library.Multiset"
begin

section \<open>Tide Tracker: the client application and the engine contract it consumes\<close>

text \<open>
  The repository's sources are the React client (\<open>App.js\<close> and its components). Functions
  of the client are embedded from the JavaScript; every browser facility they call (the
  clock, the confirmation dialog, local storage, \<open>JSON.parse\<close>, locale formatting) is an
  explicit argument or an explicit part of the state.
\<close>

subsection \<open>Rendering numbers in template literals\<close>

text \<open>
  A template literal renders a non-negative integer below \<open>10^21\<close> as its decimal digits.
\<close>

definition digit_char :: "nat \<Rightarrow> char" where
  "digit_char d = ''0123456789'' ! d"

function show_nat :: "nat \<Rightarrow> string" where
  "show_nat n = (if n < 10 then [digit_char n] else show_nat (n div 10) @ [digit_char (n mod 10)])"
  by pat_completeness auto
termination
  by (relation "measure (\<lambda>n. n)") auto

declare show_nat.simps [simp del]

subsection \<open>App.js: getTimeUntilTide\<close>

text \<open>
  \<open>new Date(tideTime)\<close> is either a time value (integer milliseconds since the epoch) or
  the invalid date, whose time value is \<open>NaN\<close>. \<open>new Date()\<close> is the current time \<open>now\<close>,
  always a time value. Time values are integers of magnitude at most \<open>8.64 * 10^15\<close>, so the
  subtraction, \<open>Math.floor\<close> of the quotients and \<open>%\<close> on a non-negative difference are
  integer \<open>-\<close>, \<open>div\<close> and \<open>mod\<close>.
\<close>

datatype date = TimeValue int | InvalidDate

definition getTimeUntilTide :: "int \<Rightarrow> date \<Rightarrow> string" where
  "getTimeUntilTide now tide =
     (case tide of
        InvalidDate \<Rightarrow> ''NaNh NaNm''
      | TimeValue t \<Rightarrow>
          (let diff = t - now in
           if diff < 0 then ''Past''
           else
             let hours = diff div (1000 * 60 * 60);
                 minutes = (diff mod (1000 * 60 * 60)) div (1000 * 60)
             in if hours = 0 then show_nat (nat minutes) @ ''m''
                else show_nat (nat hours) @ ''h '' @ show_nat (nat minutes) @ ''m''))"

subsection \<open>The bundle as the client reads it\<close>

text \<open>
  The client receives the bundle as JSON. A field the client tests for presence is an
  \<open>option\<close> (\<open>None\<close> is \<open>undefined\<close> or \<open>null\<close>); JSON numbers are finite, so a number is
  falsy exactly when it is \<open>0\<close>. A rendered text is a list of fragments: the literal
  pieces of the JSX and the numbers React prints between them.
\<close>

datatype frag = Txt string | Num rat

record tide =
  time :: string
  type :: string
  height :: rat
  relative_time :: string

record summary =
  high_tides_count :: nat
  low_tides_count :: nat
  max_height :: rat
  min_height :: rat

record weather_snapshot =
  temperature :: rat
  feels_like :: rat
  condition :: string
  wind_speed :: rat
  humidity :: rat
  visibility :: "rat option"
  pressure :: rat

record forecast_point =
  f_time :: string
  f_temperature :: rat
  f_condition :: string
  f_wind_speed :: rat

record weather_data =
  current :: "weather_snapshot option"
  forecast :: "forecast_point list option"

record tide_bundle =
  location_name :: "string option"
  next_tides :: "tide list"
  daily_summary :: "summary option"
  weather :: "weather_data option"

subsection \<open>App.js: the primary tide display\<close>

text \<open>
  \<open>tideData.next_tides.slice(0, 2).map((tide, index) => ...)\<close>. \<open>formatTime\<close> is
  \<open>toLocaleTimeString\<close> of the platform, an argument here.
\<close>

record tide_card =
  high_style :: bool
  heading :: string
  time_text :: string
  relative_text :: string
  height_text :: "frag list"

definition next_tide_card :: "(string \<Rightarrow> string) \<Rightarrow> nat \<Rightarrow> tide \<Rightarrow> tide_card" where
  "next_tide_card formatTime index t =
     \<lparr>high_style = (type t = ''High''),
      heading = (if index = 0 then ''Next'' else ''Following'') @ '' '' @ type t @ '' Tide'',
      time_text = formatTime (time t),
      relative_text = relative_time t,
      height_text = [Txt ''Height: '', Num (height t), Txt ''m'']\<rparr>"

definition next_tide_cards :: "(string \<Rightarrow> string) \<Rightarrow> tide list \<Rightarrow> tide_card list" where
  "next_tide_cards formatTime ts =
     map (\<lambda>(index, t). next_tide_card formatTime index t) (enumerate 0 (take 2 ts))"

subsection \<open>TideChart.jsx\<close>

record chart_row =
  row_high :: bool
  row_label :: string
  row_time :: string
  row_relative :: string
  row_height :: "frag list"

definition TideChart :: "(string \<Rightarrow> string) \<Rightarrow> tide list \<Rightarrow> chart_row list option" where
  "TideChart formatTime tideData =
     (if length tideData = 0 then None
      else Some (map (\<lambda>t. \<lparr>row_high = (type t = ''High''),
                             row_label = type t @ '' Tide'',
                             row_time = formatTime (time t),
                             row_relative = relative_time t,
                             row_height = [Txt ''Height: '', Num (height t), Txt ''m'']\<rparr>)
                     (take 6 tideData)))"

subsection \<open>WeatherCard.jsx\<close>

text \<open>
  \<open>toLowerCase\<close> and \<open>includes\<close> (here \<open>includes_str\<close>) on the condition text, for the ASCII letters the icon
  test looks for.
\<close>

definition toLowerCase :: "string \<Rightarrow> string" where
  "toLowerCase s =
     map (\<lambda>c. let n = (of_char c :: nat) in if 65 \<le> n \<and> n \<le> 90 then char_of (n + 32) else c) s"

fun startsWith :: "string \<Rightarrow> string \<Rightarrow> bool" where
  "startsWith s [] = True"
| "startsWith [] (c # cs) = False"
| "startsWith (d # ds) (c # cs) = (d = c \<and> startsWith ds cs)"

fun includes_str :: "string \<Rightarrow> string \<Rightarrow> bool" where
  "includes_str [] sub = (sub = [])"
| "includes_str (d # ds) sub = (startsWith (d # ds) sub \<or> includes_str ds sub)"

datatype icon = SunYellow | CloudGray | CloudBlue

definition getWeatherIcon :: "string \<Rightarrow> icon" where
  "getWeatherIcon cond =
     (let lowerCondition = toLowerCase cond in
      if includes_str lowerCondition ''sun'' \<or> includes_str lowerCondition ''clear'' then SunYellow
      else if includes_str lowerCondition ''cloud'' then CloudGray
      else CloudBlue)"

definition degC :: string where
  "degC = [CHR 0xC2, CHR 0xB0, CHR ''C'']"

record forecast_row =
  fr_time :: string
  fr_icon :: icon
  fr_temperature :: "frag list"
  fr_wind :: "frag list"

record weather_view =
  icon_shown :: icon
  temperature_text :: "frag list"
  feels_like_text :: "frag list"
  condition_text :: string
  wind_text :: "frag list"
  humidity_text :: "frag list"
  visibility_text :: "frag list"
  pressure_text :: "frag list"
  forecast_rows :: "forecast_row list option"

definition forecast_section :: "forecast_point list option \<Rightarrow> forecast_row list option" where
  "forecast_section fc =
     (case fc of
        None \<Rightarrow> None
      | Some items \<Rightarrow>
          if length items > 0
          then Some (map (\<lambda>item. \<lparr>fr_time = f_time item,
                                     fr_icon = getWeatherIcon (f_condition item),
                                     fr_temperature = [Num (f_temperature item), Txt degC],
                                     fr_wind = [Num (f_wind_speed item), Txt '' m/s'']\<rparr>)
                         (take 4 items))
          else None)"

definition WeatherCard :: "weather_data option \<Rightarrow> weather_view option" where
  "WeatherCard w =
     (case w of
        None \<Rightarrow> None
      | Some wd \<Rightarrow>
          (case current wd of
             None \<Rightarrow> None
           | Some cur \<Rightarrow>
               Some \<lparr>icon_shown = getWeatherIcon (condition cur),
                     temperature_text = [Num (temperature cur), Txt degC],
                     feels_like_text = [Txt ''Feels like '', Num (feels_like cur), Txt degC],
                     condition_text = condition cur,
                     wind_text = [Num (wind_speed cur), Txt '' m/s''],
                     humidity_text = [Num (humidity cur), Txt ''%''],
                     visibility_text =
                       (case visibility cur of
                          None \<Rightarrow> [Txt ''N/A'']
                        | Some v \<Rightarrow> if v \<noteq> 0 then [Num v, Txt ''km''] else [Txt ''N/A'']),
                     pressure_text = [Num (pressure cur), Txt '' hPa''],
                     forecast_rows = forecast_section (forecast wd)\<rparr>))"

subsection \<open>App.js: the tide and weather portions of the page\<close>

record summary_view =
  high_tides_shown :: nat
  low_tides_shown :: nat
  max_height_text :: "frag list"
  min_height_text :: "frag list"

record main_view =
  title :: string
  tide_cards :: "tide_card list"
  summary_shown :: "summary_view option"
  chart :: "chart_row list option"
  weather_card :: "weather_view option"

definition main_content :: "(string \<Rightarrow> string) \<Rightarrow> (string \<Rightarrow> string) \<Rightarrow> tide_bundle \<Rightarrow> main_view" where
  "main_content formatTime chartFormatTime tideData =
     \<lparr>title = (case location_name tideData of
                 None \<Rightarrow> ''Current Location''
               | Some n \<Rightarrow> if n \<noteq> [] then n else ''Current Location''),
      tide_cards = next_tide_cards formatTime (next_tides tideData),
      summary_shown =
        map_option (\<lambda>d. \<lparr>high_tides_shown = high_tides_count d,
                           low_tides_shown = low_tides_count d,
                           max_height_text = [Num (max_height d), Txt ''m''],
                           min_height_text = [Num (min_height d), Txt ''m'']\<rparr>)
                   (daily_summary tideData),
      chart = TideChart chartFormatTime (next_tides tideData),
      weather_card = WeatherCard (weather tideData)\<rparr>"

subsection \<open>JavaScript values held in local storage\<close>

text \<open>
  What \<open>JSON.parse\<close> returns, and \<open>undefined\<close> for a property that is not there. An object
  is the list of its own properties, each key once. Numbers are the finite ones. Reading a
  property of \<open>null\<close> or \<open>undefined\<close> throws a \<open>TypeError\<close>; the two properties read
  here, \<open>timestamp\<close> and \<open>coords\<close>, are \<open>undefined\<close> on a boolean, a number, a string and
  an array.
\<close>

datatype js = Undefined | Null | Bool bool | Number rat | Str string
  | Arr "js list" | Obj "(string \<times> js) list"

datatype exn = SyntaxError | TypeError

definition get_property :: "js \<Rightarrow> string \<Rightarrow> exn + js" where
  "get_property v k =
     (case v of
        Undefined \<Rightarrow> Inl TypeError
      | Null \<Rightarrow> Inl TypeError
      | Obj props \<Rightarrow> (case map_of props k of None \<Rightarrow> Inr Undefined | Some x \<Rightarrow> Inr x)
      | _ \<Rightarrow> Inr Undefined)"

text \<open>
  \<open>ToNumber\<close>, applied by the binary \<open>-\<close>; \<open>None\<close> is \<open>NaN\<close>. The conversion of a string,
  an array or an object goes through the platform's string-to-number grammar, the argument
  \<open>coerce\<close>.
\<close>

definition ToNumber :: "(js \<Rightarrow> rat option) \<Rightarrow> js \<Rightarrow> rat option" where
  "ToNumber coerce v =
     (case v of
        Undefined \<Rightarrow> None
      | Null \<Rightarrow> Some 0
      | Bool b \<Rightarrow> Some (if b then 1 else 0)
      | Number n \<Rightarrow> Some n
      | _ \<Rightarrow> coerce v)"

subsection \<open>App.js: state, notifications\<close>

text \<open>
  The \<open>useState\<close> cells of \<open>App\<close>, together with the two browser facilities its handlers
  change: local storage and the pending \<open>setTimeout\<close> calls (delay and task). A
  notification's \<open>id\<close> (\<open>Date.now() + Math.random()\<close>) only names it for its removal; the
  removal task carries the notification itself.
\<close>

record http_response =
  status :: int

record api_error =
  message :: "string option"

record service_states =
  tides_api :: string
  weather_api :: string

record health =
  health_status :: string
  cache_entries :: nat
  services :: "service_states option"

record notification =
  n_message :: string
  n_type :: string

datatype timer_task = RemoveNotification notification | InitializeApp

record app =
  location :: js
  tideData :: "tide_bundle option"
  loading :: bool
  error :: "string option"
  lastUpdated :: "int option"
  showSettings :: bool
  showMap :: bool
  autoRefresh :: bool
  refreshInterval :: int
  backendStatus :: "health option"
  apiHealth :: string
  notifications :: "notification list"
  localStorage :: "string \<rightharpoonup> string"
  timers :: "(int \<times> timer_task) list"

definition initial_app :: "(string \<rightharpoonup> string) \<Rightarrow> app" where
  "initial_app stored =
     \<lparr>location = Null, tideData = None, loading = True, error = None, lastUpdated = None,
      showSettings = False, showMap = False, autoRefresh = True,
      refreshInterval = 30 * 60 * 1000, backendStatus = None, apiHealth = ''unknown'',
      notifications = [], localStorage = stored, timers = []\<rparr>"

definition addNotification :: "string \<Rightarrow> string \<Rightarrow> int \<Rightarrow> app \<Rightarrow> app" where
  "addNotification msg ty duration st =
     (let notification = \<lparr>n_message = msg, n_type = ty\<rparr>;
          st1 = st\<lparr>notifications := notifications st @ [notification]\<rparr>
      in if duration > 0
         then st1\<lparr>timers := timers st1 @ [(duration, RemoveNotification notification)]\<rparr>
         else st1)"

subsection \<open>App.js: handleAPIError\<close>

text \<open>
  \<open>response?.status\<close> is \<open>undefined\<close> when there is no response. \<open>error.message || ...\<close>
  takes the fallback when the message is missing or the empty string.
\<close>

definition handleAPIError :: "api_error \<Rightarrow> http_response option \<Rightarrow> app \<Rightarrow> app" where
  "handleAPIError err response st =
     (if map_option status response = Some 422
      then st\<lparr>error := Some ''Invalid location coordinates provided. Please check your location settings.''\<rparr>
      else if map_option status response = Some 500
      then st\<lparr>error := Some ''Server error occurred. This might be due to missing API keys or service unavailability.''\<rparr>
      else if map_option status response = Some 404
      then st\<lparr>error := Some ''API endpoint not found. Please check if the backend server is running.''\<rparr>
      else st\<lparr>error := Some (case message err of
                                None \<Rightarrow> ''An unexpected error occurred''
                              | Some m \<Rightarrow> if m \<noteq> [] then m else ''An unexpected error occurred'')\<rparr>)"

subsection \<open>App.js: checkBackendHealth; LocationSettings.jsx: the backend status rows\<close>

text \<open>
  The outcome of \<open>fetch\<close> on the health endpoint: the promise rejects, or a response comes
  with its \<open>ok\<close> flag and the value of \<open>response.json()\<close> (\<open>None\<close> when the body is not
  JSON, which rejects inside the \<open>try\<close>).
\<close>

datatype 'a fetched = Rejected | Responded bool "'a option"

definition checkBackendHealth :: "health fetched \<Rightarrow> app \<Rightarrow> app" where
  "checkBackendHealth outcome st =
     (case outcome of
        Rejected \<Rightarrow>
          addNotification ''Backend is offline or unreachable'' ''error'' 3000
            (st\<lparr>apiHealth := ''offline''\<rparr>)
      | Responded ok body \<Rightarrow>
          if ok then
            (case body of
               None \<Rightarrow>
                 addNotification ''Backend is offline or unreachable'' ''error'' 3000
                   (st\<lparr>apiHealth := ''offline''\<rparr>)
             | Some h \<Rightarrow>
                 addNotification ''Backend health check successful'' ''success'' 2000
                   (st\<lparr>backendStatus := Some h, apiHealth := ''healthy''\<rparr>))
          else
            addNotification ''Backend health check returned errors'' ''warning'' 3000
              (st\<lparr>apiHealth := ''error''\<rparr>))"

record service_row =
  shown :: "string option"
  colour :: string

record backend_panel =
  status_shown :: string
  cache_entries_shown :: nat
  tides_row :: service_row
  weather_row :: service_row

definition LocationSettings_backendStatus :: "health option \<Rightarrow> backend_panel option" where
  "LocationSettings_backendStatus backendStatus' =
     (case backendStatus' of
        None \<Rightarrow> None
      | Some b \<Rightarrow>
          Some \<lparr>status_shown = health_status b,
                cache_entries_shown = cache_entries b,
                tides_row =
                  \<lparr>shown = map_option tides_api (services b),
                   colour = (if map_option tides_api (services b) = Some ''configured''
                             then ''text-green-600'' else ''text-red-600'')\<rparr>,
                weather_row =
                  \<lparr>shown = map_option weather_api (services b),
                   colour = (if map_option weather_api (services b) = Some ''configured''
                             then ''text-green-600'' else ''text-yellow-600'')\<rparr>\<rparr>)"

subsection \<open>App.js: loadStoredLocation\<close>

text \<open>
  \<open>JSON_parse\<close> is the platform's \<open>JSON.parse\<close> (\<open>None\<close> when it throws a \<open>SyntaxError\<close>),
  \<open>now\<close> is \<open>Date.now()\<close>. The body of the \<open>try\<close> either throws, returns a value (\<open>Some\<close>),
  or falls through to the \<open>return null\<close> after the \<open>catch\<close> (\<open>None\<close>). A result \<open>Inl\<close> of
  \<open>loadStoredLocation\<close> would be an exception leaving the function.
\<close>

definition loadStoredLocation_try ::
  "(string \<Rightarrow> js option) \<Rightarrow> (js \<Rightarrow> rat option) \<Rightarrow> int \<Rightarrow> app \<Rightarrow> (exn \<times> app) + (js option \<times> app)" where
  "loadStoredLocation_try JSON_parse coerce now st =
     (case localStorage st ''tideApp_location'' of
        None \<Rightarrow> Inr (None, st)
      | Some stored \<Rightarrow>
          if stored = [] then Inr (None, st)
          else
            (case JSON_parse stored of
               None \<Rightarrow> Inl (SyntaxError, st)
             | Some parsed \<Rightarrow>
                 (case get_property parsed ''timestamp'' of
                    Inl e \<Rightarrow> Inl (e, st)
                  | Inr ts \<Rightarrow>
                      (let age = map_option (\<lambda>t. of_int now - t) (ToNumber coerce ts) in
                       if (case age of None \<Rightarrow> False | Some a \<Rightarrow> a < 3600000)
                       then
                         (let st1 = addNotification ''Using stored location'' ''info'' 2000 st in
                          case get_property parsed ''coords'' of
                            Inl e \<Rightarrow> Inl (e, st1)
                          | Inr coords \<Rightarrow> Inr (Some coords, st1))
                       else
                         Inr (None,
                              addNotification ''Stored location expired, getting fresh location''
                                ''info'' 2000 st)))))"

definition loadStoredLocation ::
  "(string \<Rightarrow> js option) \<Rightarrow> (js \<Rightarrow> rat option) \<Rightarrow> int \<Rightarrow> app \<Rightarrow> exn + (js \<times> app)" where
  "loadStoredLocation JSON_parse coerce now st =
     (case loadStoredLocation_try JSON_parse coerce now st of
        Inl (e, st1) \<Rightarrow>
          Inr (Null, addNotification ''Failed to load stored location'' ''warning'' 3000 st1)
      | Inr (Some v, st1) \<Rightarrow> Inr (v, st1)
      | Inr (None, st1) \<Rightarrow> Inr (Null, st1))"

text \<open>
  The specification of \<open>loadStoredLocation\<close>, to compare with the function: when the
  entry exists, parses to a value with a \<open>timestamp\<close>, and the timestamp is less than one
  hour old, the stored \<open>coords\<close>; otherwise \<open>null\<close>.
\<close>

definition stored_location_spec ::
  "(string \<Rightarrow> js option) \<Rightarrow> (js \<Rightarrow> rat option) \<Rightarrow> int \<Rightarrow> (string \<rightharpoonup> string) \<Rightarrow> js" where
  "stored_location_spec JSON_parse coerce now storage =
     (case storage ''tideApp_location'' of
        None \<Rightarrow> Null
      | Some stored \<Rightarrow>
          (case JSON_parse stored of
             None \<Rightarrow> Null
           | Some parsed \<Rightarrow>
               (case (get_property parsed ''timestamp'', get_property parsed ''coords'') of
                  (Inr ts, Inr coords) \<Rightarrow>
                    (case ToNumber coerce ts of
                       None \<Rightarrow> Null
                     | Some t \<Rightarrow> if of_int now - t < 3600000 then coords else Null)
                | _ \<Rightarrow> Null)))"

subsection \<open>App.js: clearAllLocalStorage\<close>

text \<open>
  \<open>confirmClear\<close> is the answer of \<open>window.confirm\<close>. \<open>freed_kb\<close> is the text of
  \<open>(JSON.stringify(localStorage).length / 1024).toFixed(1)\<close>, computed by the platform from
  the storage before it is cleared.
\<close>

definition clearAllLocalStorage :: "((string \<rightharpoonup> string) \<Rightarrow> string) \<Rightarrow> bool \<Rightarrow> app \<Rightarrow> app" where
  "clearAllLocalStorage freed_kb confirmClear st =
     (if confirmClear then
        (let storageSize = freed_kb (localStorage st);
             st1 = st\<lparr>localStorage := Map.empty\<rparr>;
             st2 = addNotification
                     (''Local storage cleared successfully. Freed '' @ storageSize @ '' KB of space'')
                     ''success'' 5000 st1;
             st3 = st2\<lparr>location := Null, tideData := None, autoRefresh := True,
                        refreshInterval := 30 * 60 * 1000\<rparr>
         in st3\<lparr>timers := timers st3 @ [(1000, InitializeApp)]\<rparr>)
      else st)"

subsection \<open>The engine behind the endpoint\<close>

text \<open>
  The backend (\<open>backend/main.py\<close>) is not among the sources; the client above is its only
  caller. The three parts of it that the properties below need follow the specification.
\<close>

text \<open>
  Modelled from the spec: the Health/Status Reporter (section 4.6), which is the health
  operation of the absent backend. It reports \<open>healthy\<close> if both upstream services are
  configured and the last probe succeeded, else \<open>degraded\<close>; the number of cache entries;
  and for each service \<open>configured\<close> or \<open>missing_credentials\<close>.
\<close>

definition service_state :: "bool \<Rightarrow> string" where
  "service_state has_credentials = (if has_credentials then ''configured'' else ''missing_credentials'')"

definition health_report :: "bool \<Rightarrow> bool \<Rightarrow> bool \<Rightarrow> nat \<Rightarrow> health" where
  "health_report tides_configured weather_configured probe_ok cache_size =
     \<lparr>health_status =
        (if tides_configured \<and> weather_configured \<and> probe_ok then ''healthy'' else ''degraded''),
      cache_entries = cache_size,
      services = Some \<lparr>tides_api = service_state tides_configured,
                        weather_api = service_state weather_configured\<rparr>\<rparr>"

text \<open>
  Modelled from the spec: the Tide Deriver (section 4.2, steps 1 to 3) of the absent
  backend. Its input is the provider's ordered list of extrema. Step 1 keeps the provider's
  classification when present and otherwise compares the height with the neighbours'
  heights; the specification does not say how that comparison treats equal heights or a
  missing neighbour, so it is the argument \<open>by_neighbours\<close>. Step 2 keeps the events with
  \<open>time \<ge> now\<close>. Step 3 attaches the duration-until text, which is the computation of
  \<open>getTimeUntilTide\<close>. The list fetched for the extended window (the edge case of section
  4.2) goes through the same three steps.
\<close>

datatype tide_kind = High | Low

record extremum =
  ex_time :: int
  ex_height :: rat
  ex_kind :: "tide_kind option"

record tide_event =
  ev_time :: int
  ev_kind :: tide_kind
  ev_height :: rat
  ev_relative_time :: string

fun classify :: "(rat option \<Rightarrow> rat \<Rightarrow> rat option \<Rightarrow> tide_kind) \<Rightarrow> rat option \<Rightarrow> extremum list
    \<Rightarrow> (extremum \<times> tide_kind) list" where
  "classify by_neighbours prev [] = []"
| "classify by_neighbours prev (e # es) =
     (e, case ex_kind e of
           Some k \<Rightarrow> k
         | None \<Rightarrow> by_neighbours prev (ex_height e)
                     (case es of [] \<Rightarrow> None | n # _ \<Rightarrow> Some (ex_height n)))
     # classify by_neighbours (Some (ex_height e)) es"

definition tide_deriver :: "(rat option \<Rightarrow> rat \<Rightarrow> rat option \<Rightarrow> tide_kind) \<Rightarrow> int \<Rightarrow> extremum list
    \<Rightarrow> tide_event list" where
  "tide_deriver by_neighbours now raw =
     map (\<lambda>(e, k). \<lparr>ev_time = ex_time e, ev_kind = k, ev_height = ex_height e,
                     ev_relative_time = getTimeUntilTide now (TimeValue (ex_time e))\<rparr>)
         (filter (\<lambda>(e, k). now \<le> ex_time e) (classify by_neighbours None raw))"

text \<open>
  Modelled from the spec: the overall rating of the Marine Condition Scorer (section 4.3)
  of the absent backend. The suitability map is the list of its entries, one per activity.
  The rating buckets the aggregate of all scores; the aggregate is the mean or the minimum,
  the policy the implementer fixes. The specification gives no rating for an empty map
  (\<open>None\<close>).
\<close>

datatype rating = Excellent | Good | Fair | Poor

datatype rating_policy = MeanPolicy | MinimumPolicy

definition aggregate :: "rating_policy \<Rightarrow> rat list \<Rightarrow> rat option" where
  "aggregate policy scores =
     (case scores of
        [] \<Rightarrow> None
      | x # xs \<Rightarrow>
          Some (case policy of
                  MeanPolicy \<Rightarrow> sum_list scores / of_nat (length scores)
                | MinimumPolicy \<Rightarrow> fold min xs x))"

definition bucket :: "rat \<Rightarrow> rating" where
  "bucket a = (if 8 \<le> a then Excellent else if 6 \<le> a then Good else if 4 \<le> a then Fair else Poor)"

definition overall_rating :: "rating_policy \<Rightarrow> (string \<times> rat) list \<Rightarrow> rating option" where
  "overall_rating policy suitability = map_option bucket (aggregate policy (map snd suitability))"

section \<open>Properties\<close>

subsection \<open>The relative time of a tide event\<close>

text \<open>
  C1. For a tide event at time value \<open>t\<close>, \<open>getTimeUntilTide\<close> returns \<open>Past\<close> exactly when
  \<open>t\<close> is strictly before the current time; otherwise it returns the whole hours \<open>h\<close> and
  the remaining whole minutes \<open>m < 60\<close> until the event, as \<open><h>h <m>m\<close>, or as \<open><m>m\<close> when
  \<open>h\<close> is zero.
\<close>

theorem getTimeUntilTide_past_or_duration:
  "(getTimeUntilTide now (TimeValue t) = ''Past'' \<longleftrightarrow> t < now) \<and>
   (now \<le> t \<longrightarrow>
      (\<exists>h m. m < 60 \<and>
         int h * 3600000 + int m * 60000 \<le> t - now \<and>
         t - now < int h * 3600000 + (int m + 1) * 60000 \<and>
         getTimeUntilTide now (TimeValue t) =
           (if h = 0 then show_nat m @ ''m'' else show_nat h @ ''h '' @ show_nat m @ ''m'')))"
proof -
  define d where "d = t - now"
  define h where "h = nat (d div 3600000)"
  define m where "m = nat ((d mod 3600000) div 60000)"
  have past: "getTimeUntilTide now (TimeValue t) = ''Past'' \<longleftrightarrow> t < now"
  proof (cases "t < now")
    case True
    then show ?thesis by (simp add: getTimeUntilTide_def)
  next
    case False
    have "xs @ ''m'' \<noteq> ''Past''" for xs :: string
    proof
      assume "xs @ ''m'' = ''Past''"
      then have "last (xs @ ''m'') = last ''Past''" by simp
      then show False by simp
    qed
    with False show ?thesis
      by (simp add: getTimeUntilTide_def Let_def)
  qed
  have dur: "\<exists>h m. m < 60 \<and>
         int h * 3600000 + int m * 60000 \<le> t - now \<and>
         t - now < int h * 3600000 + (int m + 1) * 60000 \<and>
         getTimeUntilTide now (TimeValue t) =
           (if h = 0 then show_nat m @ ''m'' else show_nat h @ ''h '' @ show_nat m @ ''m'')"
    if le: "now \<le> t"
  proof -
    from le have d0: "0 \<le> d" by (simp add: d_def)
    then have hq: "int h = d div 3600000" by (simp add: h_def)
    have r0: "0 \<le> d mod 3600000" and r1: "d mod 3600000 < 3600000" by simp_all
    then have mq: "int m = (d mod 3600000) div 60000" by (simp add: m_def)
    have m60: "m < 60" using r1 mq by linarith
    have split_d: "d = int h * 3600000 + d mod 3600000"
      using hq by simp
    have split_r: "d mod 3600000 = int m * 60000 + (d mod 3600000) mod 60000"
      using mq by simp
    have s0: "0 \<le> (d mod 3600000) mod 60000" and s1: "(d mod 3600000) mod 60000 < 60000"
      by simp_all
    have lo: "int h * 3600000 + int m * 60000 \<le> d" using split_d split_r s0 by linarith
    have "(int m + 1) * 60000 = int m * 60000 + 60000" by (simp add: algebra_simps)
    then have hi: "d < int h * 3600000 + (int m + 1) * 60000"
      using split_d split_r s1 by linarith
    have eq: "getTimeUntilTide now (TimeValue t) =
           (if d div 3600000 = 0 then show_nat (nat ((d mod 3600000) div 60000)) @ ''m''
            else show_nat (nat (d div 3600000)) @ ''h '' @
                 show_nat (nat ((d mod 3600000) div 60000)) @ ''m'')"
      using d0 by (simp add: getTimeUntilTide_def Let_def d_def)
    have res: "getTimeUntilTide now (TimeValue t) =
           (if h = 0 then show_nat m @ ''m'' else show_nat h @ ''h '' @ show_nat m @ ''m'')"
    proof (cases "h = 0")
      case True
      then have "d div 3600000 = 0" using hq by linarith
      with True show ?thesis unfolding eq m_def by simp
    next
      case False
      then have "d div 3600000 \<noteq> 0" using hq by linarith
      with False show ?thesis unfolding eq m_def by (simp add: h_def)
    qed
    from m60 lo hi res show ?thesis unfolding d_def by blast
  qed
  from past dur show ?thesis by blast
qed

theorem getTimeUntilTide_past_or_duration_witness:
  "(1000::int) \<le> 8101000 \<and> getTimeUntilTide 1000 (TimeValue 8101000) \<noteq> ''Past'' \<and>
   getTimeUntilTide 1000 (TimeValue 8101000) = ''2h 15m'' \<and>
   getTimeUntilTide 1000 (TimeValue 901000) = ''15m'' \<and>
   getTimeUntilTide 1000 (TimeValue 999) = ''Past''"
  using getTimeUntilTide_past_or_duration [of 1000 8101000]
  by (simp add: getTimeUntilTide_def show_nat.simps digit_char_def)

subsection \<open>Order and futurity of the derived tide events\<close>

lemma map_fst_classify: "map fst (classify d prev raw) = raw"
  by (induction raw arbitrary: prev) simp_all

lemma tide_deriver_times:
  "map ev_time (tide_deriver d now raw) = filter (\<lambda>t. now \<le> t) (map ex_time raw)"
proof -
  have "map ev_time (tide_deriver d now raw)
        = map (ex_time \<circ> fst) (filter ((\<lambda>t. now \<le> t) \<circ> (ex_time \<circ> fst)) (classify d None raw))"
    by (simp add: tide_deriver_def comp_def case_prod_unfold)
  also have "\<dots> = filter (\<lambda>t. now \<le> t) (map (ex_time \<circ> fst) (classify d None raw))"
    by (simp only: filter_map)
  also have "map (ex_time \<circ> fst) (classify d None raw) = map ex_time raw"
    using map_fst_classify [of d None raw] by (metis map_map)
  finally show ?thesis .
qed

text \<open>
  C2. Whatever ordered list of extrema the provider returns for a coordinate, the derived
  \<open>next_tides\<close> is non-decreasing in event time and holds no event whose time is strictly
  before the query time \<open>now\<close>.
\<close>

theorem next_tides_sorted_and_future:
  "sorted (map ex_time raw) \<Longrightarrow>
   sorted (map ev_time (tide_deriver by_neighbours now raw)) \<and>
   (\<forall>e \<in> set (tide_deriver by_neighbours now raw). now \<le> ev_time e)"
proof -
  assume s: "sorted (map ex_time raw)"
  have t: "map ev_time (tide_deriver by_neighbours now raw) = filter (\<lambda>t. now \<le> t) (map ex_time raw)"
    by (rule tide_deriver_times)
  have a: "sorted (map ev_time (tide_deriver by_neighbours now raw))"
    unfolding t using s by (rule sorted_wrt_filter)
  have "\<forall>x \<in> set (map ev_time (tide_deriver by_neighbours now raw)). now \<le> x"
    unfolding t by simp
  then have b: "\<forall>e \<in> set (tide_deriver by_neighbours now raw). now \<le> ev_time e"
    by simp
  from a b show ?thesis ..
qed

theorem next_tides_sorted_and_future_witness:
  "sorted (map ex_time [\<lparr>ex_time = 500, ex_height = 1/2, ex_kind = None\<rparr>,
       \<lparr>ex_time = 3601000, ex_height = 9/5, ex_kind = Some High\<rparr>,
       \<lparr>ex_time = 25201000, ex_height = 1/5, ex_kind = None\<rparr>]) \<and>
   tide_deriver (\<lambda>p h n. Low) 1000 [\<lparr>ex_time = 500, ex_height = 1/2, ex_kind = None\<rparr>,
       \<lparr>ex_time = 3601000, ex_height = 9/5, ex_kind = Some High\<rparr>,
       \<lparr>ex_time = 25201000, ex_height = 1/5, ex_kind = None\<rparr>] =
     [\<lparr>ev_time = 3601000, ev_kind = High, ev_height = 9/5, ev_relative_time = ''1h 0m''\<rparr>,
      \<lparr>ev_time = 25201000, ev_kind = Low, ev_height = 1/5, ev_relative_time = ''7h 0m''\<rparr>]"
  using next_tides_sorted_and_future [of "[\<lparr>ex_time = 500, ex_height = 1/2, ex_kind = None\<rparr>,
       \<lparr>ex_time = 3601000, ex_height = 9/5, ex_kind = Some High\<rparr>,
       \<lparr>ex_time = 25201000, ex_height = 1/5, ex_kind = None\<rparr>]" "\<lambda>p h n. Low" 1000]
  by (simp add: tide_deriver_def getTimeUntilTide_def show_nat.simps digit_char_def)

subsection \<open>The overall rating\<close>

lemma fold_min_Min: "fold min xs (x::rat) = Min (set (x # xs))"
  by (rule Min.set_eq_fold [symmetric])

lemma aggregate_mset:
  "mset xs = mset ys \<Longrightarrow> aggregate policy xs = aggregate policy ys"
proof -
  assume m: "mset xs = mset ys"
  then have len: "length xs = length ys" by (rule mset_eq_length)
  from m have sm: "sum_list xs = sum_list ys" by (metis sum_mset_sum_list)
  from m have st: "set xs = set ys" by (rule mset_eq_setD)
  show ?thesis
  proof (cases xs)
    case Nil
    with len show ?thesis by simp
  next
    case (Cons x xs')
    with len obtain y ys' where ys: "ys = y # ys'" by (cases ys) auto
    have "fold min xs' x = fold min ys' y"
      using st unfolding Cons ys fold_min_Min by simp
    with sm len show ?thesis
      unfolding Cons ys by (cases policy) (simp_all add: aggregate_def)
  qed
qed

lemma same_map_same_scores:
  assumes "distinct (map fst xs)" "distinct (map fst ys)" "map_of xs = map_of ys"
  shows "mset (map snd xs) = mset (map snd (ys :: (string \<times> rat) list))"
proof -
  from assms have "set xs = set ys" by (simp add: map_of_inject_set)
  moreover from assms(1) have "distinct xs" by (rule distinct_map [THEN iffD1, THEN conjunct1])
  moreover from assms(2) have "distinct ys" by (rule distinct_map [THEN iffD1, THEN conjunct1])
  ultimately have "mset xs = mset ys" by (simp add: set_eq_iff_mset_eq_distinct)
  then show ?thesis by (metis mset_map)
qed

lemma aggregate_mean:
  "scores \<noteq> [] \<Longrightarrow> \<exists>a. aggregate MeanPolicy scores = Some a \<and> a * of_nat (length scores) = sum_list scores"
  by (cases scores) (simp_all add: aggregate_def)

lemma aggregate_minimum:
  "scores \<noteq> [] \<Longrightarrow> \<exists>a. aggregate MinimumPolicy scores = Some a \<and> a \<in> set scores \<and> (\<forall>s \<in> set scores. a \<le> s)"
proof (cases scores)
  case Nil
  assume "scores \<noteq> []" with Nil show ?thesis by simp
next
  case (Cons x xs)
  have "Min (set (x # xs)) \<in> set (x # xs)" by (rule Min_in) simp_all
  moreover have "\<forall>s \<in> set (x # xs). Min (set (x # xs)) \<le> s" by (simp del: set_simps)
  ultimately show ?thesis unfolding Cons by (simp add: aggregate_def fold_min_Min del: set_simps Min_insert)
qed

text \<open>
  C3. The overall rating is a function of the suitability map alone: for a non-empty map
  it buckets the aggregate of all scores under the fixed policy (the mean, or the minimum),
  giving Excellent when the aggregate is at least 8, Good when at least 6, Fair when at
  least 4 and Poor otherwise; and two entry lists of the same map get the same rating.
\<close>

theorem overall_rating_buckets_aggregate:
  "(suitability \<noteq> [] \<longrightarrow>
      (\<exists>a. aggregate policy (map snd suitability) = Some a \<and>
           (policy = MeanPolicy \<longrightarrow> a * of_nat (length suitability) = sum_list (map snd suitability)) \<and>
           (policy = MinimumPolicy \<longrightarrow>
              a \<in> snd ` set suitability \<and> (\<forall>s \<in> snd ` set suitability. a \<le> s)) \<and>
           overall_rating policy suitability =
             Some (if 8 \<le> a then Excellent else if 6 \<le> a then Good
                   else if 4 \<le> a then Fair else Poor))) \<and>
   (\<forall>other. distinct (map fst suitability) \<and> distinct (map fst other) \<and>
            map_of other = map_of suitability \<longrightarrow>
            overall_rating policy other = overall_rating policy suitability)"
proof (intro conjI impI allI)
  assume ne: "suitability \<noteq> []"
  then have ne': "map snd suitability \<noteq> []" by simp
  show "\<exists>a. aggregate policy (map snd suitability) = Some a \<and>
           (policy = MeanPolicy \<longrightarrow> a * of_nat (length suitability) = sum_list (map snd suitability)) \<and>
           (policy = MinimumPolicy \<longrightarrow>
              a \<in> snd ` set suitability \<and> (\<forall>s \<in> snd ` set suitability. a \<le> s)) \<and>
           overall_rating policy suitability =
             Some (if 8 \<le> a then Excellent else if 6 \<le> a then Good
                   else if 4 \<le> a then Fair else Poor)"
  proof (cases policy)
    case MeanPolicy
    from aggregate_mean [OF ne'] obtain a where
      "aggregate MeanPolicy (map snd suitability) = Some a"
      "a * of_nat (length (map snd suitability)) = sum_list (map snd suitability)" by blast
    with MeanPolicy show ?thesis by (simp add: overall_rating_def bucket_def)
  next
    case MinimumPolicy
    from aggregate_minimum [OF ne'] obtain a where
      "aggregate MinimumPolicy (map snd suitability) = Some a"
      "a \<in> set (map snd suitability)" "\<forall>s \<in> set (map snd suitability). a \<le> s" by blast
    with MinimumPolicy show ?thesis by (simp add: overall_rating_def bucket_def)
  qed
next
  fix other
  assume h: "distinct (map fst suitability) \<and> distinct (map fst other) \<and>
            map_of other = map_of suitability"
  then have "mset (map snd other) = mset (map snd suitability)"
    by (intro same_map_same_scores) simp_all
  then have "aggregate policy (map snd other) = aggregate policy (map snd suitability)"
    by (rule aggregate_mset)
  then show "overall_rating policy other = overall_rating policy suitability"
    by (simp add: overall_rating_def)
qed

theorem overall_rating_buckets_aggregate_witness:
  "[(''swimming'', 9::rat), (''surfing'', 7), (''fishing'', 8), (''boating'', 4)] \<noteq> [] \<and>
   distinct (map fst [(''swimming'', 9::rat), (''surfing'', 7), (''fishing'', 8), (''boating'', 4)]) \<and>
   distinct (map fst [(''boating'', 4::rat), (''fishing'', 8), (''surfing'', 7), (''swimming'', 9)]) \<and>
   map_of [(''boating'', 4::rat), (''fishing'', 8), (''surfing'', 7), (''swimming'', 9)] =
     map_of [(''swimming'', 9::rat), (''surfing'', 7), (''fishing'', 8), (''boating'', 4)] \<and>
   overall_rating MeanPolicy [(''swimming'', 9), (''surfing'', 7), (''fishing'', 8), (''boating'', 4)] =
     Some Good \<and>
   overall_rating MeanPolicy [(''boating'', 4), (''fishing'', 8), (''surfing'', 7), (''swimming'', 9)] =
     Some Good"
  using overall_rating_buckets_aggregate
    [of "[(''swimming'', 9), (''surfing'', 7), (''fishing'', 8), (''boating'', 4)]" MeanPolicy]
  by (auto simp add: overall_rating_def aggregate_def bucket_def fun_eq_iff)

subsection \<open>The message for a failed request\<close>

text \<open>
  C4, as stated, fails for a failure outside the three statuses whose error carries an
  empty message or none: the handler then shows its fallback text, not the error's own
  message.
\<close>

theorem handleAPIError_other_failure_counterexample:
  "map_option status (Some \<lparr>status = 400\<rparr>) \<noteq> Some 422 \<and>
   map_option status (Some \<lparr>status = 400\<rparr>) \<noteq> Some 500 \<and>
   map_option status (Some \<lparr>status = 400\<rparr>) \<noteq> Some 404 \<and>
   error (handleAPIError \<lparr>message = Some ''''\<rparr> (Some \<lparr>status = 400\<rparr>) (initial_app Map.empty))
     \<noteq> message \<lparr>message = Some ''''\<rparr> \<and>
   error (handleAPIError \<lparr>message = None\<rparr> None (initial_app Map.empty))
     \<noteq> message \<lparr>message = None\<rparr>"
  by (simp add: handleAPIError_def initial_app_def)

text \<open>
  C4, amended. \<open>handleAPIError\<close> changes only the displayed error. Status 422 gives the
  invalid-coordinates message, status 500 the server-problem message, status 404 the
  endpoint-not-found message, and the three messages differ. Any other failure shows the
  error's own message when it has a non-empty one, and \<open>An unexpected error occurred\<close>
  when the message is missing or empty.
\<close>

theorem handleAPIError_by_status:
  "handleAPIError err response st = st\<lparr>error := error (handleAPIError err response st)\<rparr> \<and>
   (map_option status response = Some 422 \<longrightarrow>
      error (handleAPIError err response st) =
        Some ''Invalid location coordinates provided. Please check your location settings.'') \<and>
   (map_option status response = Some 500 \<longrightarrow>
      error (handleAPIError err response st) =
        Some ''Server error occurred. This might be due to missing API keys or service unavailability.'') \<and>
   (map_option status response = Some 404 \<longrightarrow>
      error (handleAPIError err response st) =
        Some ''API endpoint not found. Please check if the backend server is running.'') \<and>
   (map_option status response \<notin> {Some 422, Some 500, Some 404} \<longrightarrow>
      (\<forall>m. message err = Some m \<and> m \<noteq> [] \<longrightarrow> error (handleAPIError err response st) = Some m) \<and>
      (message err = None \<or> message err = Some [] \<longrightarrow>
         error (handleAPIError err response st) = Some ''An unexpected error occurred'')) \<and>
   ''Invalid location coordinates provided. Please check your location settings.'' \<noteq>
     ''Server error occurred. This might be due to missing API keys or service unavailability.'' \<and>
   ''Invalid location coordinates provided. Please check your location settings.'' \<noteq>
     ''API endpoint not found. Please check if the backend server is running.'' \<and>
   ''Server error occurred. This might be due to missing API keys or service unavailability.'' \<noteq>
     ''API endpoint not found. Please check if the backend server is running.''"
  by (auto simp add: handleAPIError_def)

theorem handleAPIError_by_status_witness:
  "map_option status (Some \<lparr>status = 422\<rparr>) = Some 422 \<and>
   error (handleAPIError \<lparr>message = Some ''API Error: 422 - bad''\<rparr> (Some \<lparr>status = 422\<rparr>) (initial_app Map.empty)) =
     Some ''Invalid location coordinates provided. Please check your location settings.'' \<and>
   map_option status (Some \<lparr>status = 500\<rparr>) = Some 500 \<and>
   error (handleAPIError \<lparr>message = Some ''API Error: 500 - down''\<rparr> (Some \<lparr>status = 500\<rparr>) (initial_app Map.empty)) =
     Some ''Server error occurred. This might be due to missing API keys or service unavailability.'' \<and>
   map_option status (Some \<lparr>status = 404\<rparr>) = Some 404 \<and>
   error (handleAPIError \<lparr>message = Some ''API Error: 404 - none''\<rparr> (Some \<lparr>status = 404\<rparr>) (initial_app Map.empty)) =
     Some ''API endpoint not found. Please check if the backend server is running.'' \<and>
   map_option status None \<notin> {Some 422, Some 500, Some 404} \<and>
   message \<lparr>message = Some ''Failed to fetch''\<rparr> = Some ''Failed to fetch'' \<and> ''Failed to fetch'' \<noteq> [] \<and>
   error (handleAPIError \<lparr>message = Some ''Failed to fetch''\<rparr> None (initial_app Map.empty)) = Some ''Failed to fetch'' \<and>
   message \<lparr>message = None\<rparr> = None \<and>
   error (handleAPIError \<lparr>message = None\<rparr> None (initial_app Map.empty)) = Some ''An unexpected error occurred''"
  using handleAPIError_by_status [of "\<lparr>message = Some ''API Error: 422 - bad''\<rparr>" "Some \<lparr>status = 422\<rparr>" "initial_app Map.empty"]
        handleAPIError_by_status [of "\<lparr>message = Some ''API Error: 500 - down''\<rparr>" "Some \<lparr>status = 500\<rparr>" "initial_app Map.empty"]
        handleAPIError_by_status [of "\<lparr>message = Some ''API Error: 404 - none''\<rparr>" "Some \<lparr>status = 404\<rparr>" "initial_app Map.empty"]
        handleAPIError_by_status [of "\<lparr>message = Some ''Failed to fetch''\<rparr>" None "initial_app Map.empty"]
        handleAPIError_by_status [of "\<lparr>message = None\<rparr>" None "initial_app Map.empty"]
  by simp

subsection \<open>A bundle without weather\<close>

lemma next_tide_cards_nth:
  "i < min 2 (length ts) \<Longrightarrow>
   next_tide_cards formatTime ts ! i = next_tide_card formatTime i (ts ! i)"
proof -
  assume i: "i < min 2 (length ts)"
  then have "i < length (enumerate 0 (take 2 ts))" by simp
  then have "next_tide_cards formatTime ts ! i =
      (\<lambda>(index, t). next_tide_card formatTime index t) (enumerate 0 (take 2 ts) ! i)"
    unfolding next_tide_cards_def by (rule nth_map)
  also have "enumerate 0 (take 2 ts) ! i = (i, ts ! i)"
    using i by (simp add: nth_enumerate_eq)
  finally show ?thesis by simp
qed

lemma TideChart_rows:
  "ts \<noteq> [] \<Longrightarrow>
   \<exists>rows. TideChart chartFormatTime ts = Some rows \<and> length rows = min 6 (length ts) \<and>
     (\<forall>i < length rows.
        rows ! i = \<lparr>row_high = (type (ts ! i) = ''High''),
                     row_label = type (ts ! i) @ '' Tide'',
                     row_time = chartFormatTime (time (ts ! i)),
                     row_relative = relative_time (ts ! i),
                     row_height = [Txt ''Height: '', Num (height (ts ! i)), Txt ''m'']\<rparr>)"
  by (simp add: TideChart_def)

text \<open>
  C5. For a bundle whose weather is absent, or present without a current snapshot,
  \<open>WeatherCard\<close> renders nothing and the page has no weather card; apart from that the page
  is the page of the same bundle with any weather \<open>w\<close>. The tide portions are rendered in
  full: one card for each of the first two entries of \<open>next_tides\<close>, headed \<open>Next\<close> and
  \<open>Following\<close>, with the entry's type, formatted time, relative time and height; a chart
  with one row for each of the first six entries (no chart when there are none), each row
  with the entry's type, formatted time, relative time and height; the daily summary with
  its two counts and two heights whenever the bundle has one; and the location title.
\<close>

theorem WeatherCard_null_tides_rendered:
  "weather b = None \<or> (\<exists>wd. weather b = Some wd \<and> current wd = None) \<Longrightarrow>
   WeatherCard (weather b) = None \<and>
   weather_card (main_content formatTime chartFormatTime b) = None \<and>
   main_content formatTime chartFormatTime b =
     (main_content formatTime chartFormatTime (b\<lparr>weather := w\<rparr>))\<lparr>weather_card := None\<rparr> \<and>
   length (tide_cards (main_content formatTime chartFormatTime b)) = min 2 (length (next_tides b)) \<and>
   (\<forall>i < min 2 (length (next_tides b)).
      tide_cards (main_content formatTime chartFormatTime b) ! i =
        \<lparr>high_style = (type (next_tides b ! i) = ''High''),
         heading = (if i = 0 then ''Next'' else ''Following'') @ '' '' @
                   type (next_tides b ! i) @ '' Tide'',
         time_text = formatTime (time (next_tides b ! i)),
         relative_text = relative_time (next_tides b ! i),
         height_text = [Txt ''Height: '', Num (height (next_tides b ! i)), Txt ''m'']\<rparr>) \<and>
   (next_tides b = [] \<longrightarrow> chart (main_content formatTime chartFormatTime b) = None) \<and>
   (next_tides b \<noteq> [] \<longrightarrow>
      (\<exists>rows. chart (main_content formatTime chartFormatTime b) = Some rows \<and>
         length rows = min 6 (length (next_tides b)) \<and>
         (\<forall>i < length rows.
            rows ! i = \<lparr>row_high = (type (next_tides b ! i) = ''High''),
                         row_label = type (next_tides b ! i) @ '' Tide'',
                         row_time = chartFormatTime (time (next_tides b ! i)),
                         row_relative = relative_time (next_tides b ! i),
                         row_height = [Txt ''Height: '', Num (height (next_tides b ! i)),
                                       Txt ''m'']\<rparr>))) \<and>
   (daily_summary b = None \<longrightarrow> summary_shown (main_content formatTime chartFormatTime b) = None) \<and>
   (\<forall>d. daily_summary b = Some d \<longrightarrow>
      summary_shown (main_content formatTime chartFormatTime b) =
        Some \<lparr>high_tides_shown = high_tides_count d,
              low_tides_shown = low_tides_count d,
              max_height_text = [Num (max_height d), Txt ''m''],
              min_height_text = [Num (min_height d), Txt ''m'']\<rparr>) \<and>
   title (main_content formatTime chartFormatTime b) =
     (if location_name b = None \<or> location_name b = Some [] then ''Current Location''
      else the (location_name b))"
proof -
  assume h: "weather b = None \<or> (\<exists>wd. weather b = Some wd \<and> current wd = None)"
  let ?page = "main_content formatTime chartFormatTime b"
  from h have c1: "WeatherCard (weather b) = None"
    by (auto simp add: WeatherCard_def)
  then have c2: "weather_card ?page = None"
    by (simp add: main_content_def)
  from c1 have c3: "?page =
     (main_content formatTime chartFormatTime (b\<lparr>weather := w\<rparr>))\<lparr>weather_card := None\<rparr>"
    by (simp add: main_content_def)
  have tc: "tide_cards ?page = next_tide_cards formatTime (next_tides b)"
    by (simp add: main_content_def)
  have c4: "length (tide_cards ?page) = min 2 (length (next_tides b))"
    unfolding tc by (simp add: next_tide_cards_def)
  have c5: "\<forall>i < min 2 (length (next_tides b)).
      tide_cards ?page ! i =
        \<lparr>high_style = (type (next_tides b ! i) = ''High''),
         heading = (if i = 0 then ''Next'' else ''Following'') @ '' '' @
                   type (next_tides b ! i) @ '' Tide'',
         time_text = formatTime (time (next_tides b ! i)),
         relative_text = relative_time (next_tides b ! i),
         height_text = [Txt ''Height: '', Num (height (next_tides b ! i)), Txt ''m'']\<rparr>"
    unfolding tc by (simp add: next_tide_cards_nth next_tide_card_def)
  have ch: "chart ?page = TideChart chartFormatTime (next_tides b)"
    by (simp add: main_content_def)
  have c6: "next_tides b = [] \<longrightarrow> chart ?page = None"
    unfolding ch by (simp add: TideChart_def)
  have c7: "next_tides b \<noteq> [] \<longrightarrow>
      (\<exists>rows. chart ?page = Some rows \<and>
         length rows = min 6 (length (next_tides b)) \<and>
         (\<forall>i < length rows.
            rows ! i = \<lparr>row_high = (type (next_tides b ! i) = ''High''),
                         row_label = type (next_tides b ! i) @ '' Tide'',
                         row_time = chartFormatTime (time (next_tides b ! i)),
                         row_relative = relative_time (next_tides b ! i),
                         row_height = [Txt ''Height: '', Num (height (next_tides b ! i)),
                                       Txt ''m'']\<rparr>))"
    unfolding ch using TideChart_rows [of "next_tides b" chartFormatTime] by blast
  have c8: "daily_summary b = None \<longrightarrow> summary_shown ?page = None"
    by (simp add: main_content_def)
  have c9: "\<forall>d. daily_summary b = Some d \<longrightarrow>
      summary_shown ?page =
        Some \<lparr>high_tides_shown = high_tides_count d,
              low_tides_shown = low_tides_count d,
              max_height_text = [Num (max_height d), Txt ''m''],
              min_height_text = [Num (min_height d), Txt ''m'']\<rparr>"
    by (simp add: main_content_def)
  have c10: "title ?page =
     (if location_name b = None \<or> location_name b = Some [] then ''Current Location''
      else the (location_name b))"
    by (auto simp add: main_content_def split: option.splits)
  from c1 c2 c3 c4 c5 c6 c7 c8 c9 c10 show ?thesis by blast
qed

theorem WeatherCard_null_tides_rendered_witness:
  "weather \<lparr>location_name = Some ''Battery Park'',
       next_tides = [\<lparr>time = ''13:00'', type = ''High'', height = 9/5, relative_time = ''1h 0m''\<rparr>,
                     \<lparr>time = ''19:00'', type = ''Low'', height = 1/5, relative_time = ''7h 0m''\<rparr>,
                     \<lparr>time = ''01:00'', type = ''High'', height = 2, relative_time = ''13h 0m''\<rparr>],
       daily_summary = Some \<lparr>high_tides_count = 2, low_tides_count = 1, max_height = 2,
                              min_height = 1/5\<rparr>,
       weather = None\<rparr> = None \<and>
   main_content (\<lambda>s. ''at '' @ s) (\<lambda>s. ''@'' @ s) \<lparr>location_name = Some ''Battery Park'',
       next_tides = [\<lparr>time = ''13:00'', type = ''High'', height = 9/5, relative_time = ''1h 0m''\<rparr>,
                     \<lparr>time = ''19:00'', type = ''Low'', height = 1/5, relative_time = ''7h 0m''\<rparr>,
                     \<lparr>time = ''01:00'', type = ''High'', height = 2, relative_time = ''13h 0m''\<rparr>],
       daily_summary = Some \<lparr>high_tides_count = 2, low_tides_count = 1, max_height = 2,
                              min_height = 1/5\<rparr>,
       weather = None\<rparr> =
     \<lparr>title = ''Battery Park'',
      tide_cards =
        [\<lparr>high_style = True, heading = ''Next High Tide'', time_text = ''at 13:00'',
          relative_text = ''1h 0m'', height_text = [Txt ''Height: '', Num (9/5), Txt ''m'']\<rparr>,
         \<lparr>high_style = False, heading = ''Following Low Tide'', time_text = ''at 19:00'',
          relative_text = ''7h 0m'', height_text = [Txt ''Height: '', Num (1/5), Txt ''m'']\<rparr>],
      summary_shown =
        Some \<lparr>high_tides_shown = 2, low_tides_shown = 1,
              max_height_text = [Num 2, Txt ''m''], min_height_text = [Num (1/5), Txt ''m'']\<rparr>,
      chart =
        Some [\<lparr>row_high = True, row_label = ''High Tide'', row_time = ''@13:00'',
               row_relative = ''1h 0m'', row_height = [Txt ''Height: '', Num (9/5), Txt ''m'']\<rparr>,
              \<lparr>row_high = False, row_label = ''Low Tide'', row_time = ''@19:00'',
               row_relative = ''7h 0m'', row_height = [Txt ''Height: '', Num (1/5), Txt ''m'']\<rparr>,
              \<lparr>row_high = True, row_label = ''High Tide'', row_time = ''@01:00'',
               row_relative = ''13h 0m'', row_height = [Txt ''Height: '', Num 2, Txt ''m'']\<rparr>],
      weather_card = None\<rparr>"
proof -
  let ?b = "\<lparr>location_name = Some ''Battery Park'',
       next_tides = [\<lparr>time = ''13:00'', type = ''High'', height = 9/5, relative_time = ''1h 0m''\<rparr>,
                     \<lparr>time = ''19:00'', type = ''Low'', height = 1/5, relative_time = ''7h 0m''\<rparr>,
                     \<lparr>time = ''01:00'', type = ''High'', height = 2, relative_time = ''13h 0m''\<rparr>],
       daily_summary = Some \<lparr>high_tides_count = 2, low_tides_count = 1, max_height = 2,
                              min_height = 1/5\<rparr>,
       weather = None\<rparr>"
  have h: "weather ?b = None \<or> (\<exists>wd. weather ?b = Some wd \<and> current wd = None)" by simp
  note c = WeatherCard_null_tides_rendered [OF h, of "\<lambda>s. ''at '' @ s" "\<lambda>s. ''@'' @ s" None]
  from c have "weather_card (main_content (\<lambda>s. ''at '' @ s) (\<lambda>s. ''@'' @ s) ?b) = None"
    by blast
  then show ?thesis
    by (simp add: main_content_def next_tide_cards_def next_tide_card_def TideChart_def
          WeatherCard_def)
qed

subsection \<open>The primary tide display\<close>

text \<open>
  C6. The primary display has one card for each of the first two entries of \<open>next_tides\<close>
  (fewer when fewer exist) and no other card. The card of entry 0 is headed \<open>Next\<close>, the
  card of entry 1 \<open>Following\<close>, and each card shows its entry's formatted time, relative
  time and height.
\<close>

theorem next_tide_cards_first_two:
  "length (next_tide_cards formatTime ts) = min 2 (length ts) \<and>
   (\<forall>i < length (next_tide_cards formatTime ts).
      i < 2 \<and>
      next_tide_cards formatTime ts ! i =
        \<lparr>high_style = (type (ts ! i) = ''High''),
         heading = (if i = 0 then ''Next'' else ''Following'') @ '' '' @ type (ts ! i) @ '' Tide'',
         time_text = formatTime (time (ts ! i)),
         relative_text = relative_time (ts ! i),
         height_text = [Txt ''Height: '', Num (height (ts ! i)), Txt ''m'']\<rparr>)"
proof -
  have len: "length (next_tide_cards formatTime ts) = min 2 (length ts)"
    by (simp add: next_tide_cards_def)
  have "i < 2 \<and> next_tide_cards formatTime ts ! i = next_tide_card formatTime i (ts ! i)"
    if "i < length (next_tide_cards formatTime ts)" for i
  proof -
    from that len have i: "i < 2" "i < length ts" by simp_all
    then have "i < length (enumerate 0 (take 2 ts))" by simp
    then have "next_tide_cards formatTime ts ! i =
        (\<lambda>(index, t). next_tide_card formatTime index t) (enumerate 0 (take 2 ts) ! i)"
      unfolding next_tide_cards_def by (rule nth_map)
    also have "enumerate 0 (take 2 ts) ! i = (i, ts ! i)"
      using i by (simp add: nth_enumerate_eq)
    finally show ?thesis using i by simp
  qed
  with len show ?thesis by (simp add: next_tide_card_def)
qed

theorem next_tide_cards_first_two_witness:
  "map heading (next_tide_cards (\<lambda>s. s)
      [\<lparr>time = ''13:00'', type = ''High'', height = 9/5, relative_time = ''1h 0m''\<rparr>,
       \<lparr>time = ''19:00'', type = ''Low'', height = 1/5, relative_time = ''7h 0m''\<rparr>,
       \<lparr>time = ''01:00'', type = ''High'', height = 2, relative_time = ''13h 0m''\<rparr>])
   = [''Next High Tide'', ''Following Low Tide'']"
  using next_tide_cards_first_two [of "\<lambda>s. s"
      "[\<lparr>time = ''13:00'', type = ''High'', height = 9/5, relative_time = ''1h 0m''\<rparr>,
       \<lparr>time = ''19:00'', type = ''Low'', height = 1/5, relative_time = ''7h 0m''\<rparr>,
       \<lparr>time = ''01:00'', type = ''High'', height = 2, relative_time = ''13h 0m''\<rparr>]"]
  by (simp add: next_tide_cards_def next_tide_card_def)

subsection \<open>The visibility line of the weather card\<close>

lemma WeatherCard_visibility_text:
  "WeatherCard (Some wd) = Some v \<Longrightarrow> current wd = Some cur \<Longrightarrow>
   visibility_text v =
     (case visibility cur of
        None \<Rightarrow> [Txt ''N/A'']
      | Some x \<Rightarrow> if x = 0 then [Txt ''N/A''] else [Num x, Txt ''km''])"
  by (auto simp add: WeatherCard_def split: option.splits)

text \<open>
  C7. A current snapshot whose visibility is present with the value 0 km is shown as
  \<open>N/A\<close>, the placeholder of an absent visibility, and not as its value in km.
\<close>

theorem visibility_zero_shown_as_not_available:
  "map_option visibility_text
     (WeatherCard (Some \<lparr>current = Some \<lparr>temperature = 12, feels_like = 10, condition = ''fog'',
                                          wind_speed = 3, humidity = 97, visibility = Some 0,
                                          pressure = 1012\<rparr>,
                          forecast = None\<rparr>)) = Some [Txt ''N/A'']"
  by (simp add: WeatherCard_def)

subsection \<open>The health report and its rendering\<close>

text \<open>
  C8. The health report has the fields \<open>status\<close>, \<open>cache_entries\<close> and \<open>services\<close> with
  \<open>tides_api\<close> and \<open>weather_api\<close>, each service field being \<open>configured\<close> or
  \<open>missing_credentials\<close>. After a successful health check the client holds that report,
  and the settings panel shows exactly its status, its cache entry count and its two
  service fields.
\<close>

theorem health_fields_rendered:
  "backendStatus (checkBackendHealth (Responded True (Some (health_report t w p n))) st) =
     Some (health_report t w p n) \<and>
   health_report t w p n =
     \<lparr>health_status = (if t \<and> w \<and> p then ''healthy'' else ''degraded''),
      cache_entries = n,
      services = Some \<lparr>tides_api = service_state t, weather_api = service_state w\<rparr>\<rparr> \<and>
   service_state t \<in> {''configured'', ''missing_credentials''} \<and>
   service_state w \<in> {''configured'', ''missing_credentials''} \<and>
   LocationSettings_backendStatus
       (backendStatus (checkBackendHealth (Responded True (Some (health_report t w p n))) st)) =
     Some \<lparr>status_shown = health_status (health_report t w p n),
           cache_entries_shown = cache_entries (health_report t w p n),
           tides_row = \<lparr>shown = Some (service_state t),
                        colour = (if t then ''text-green-600'' else ''text-red-600'')\<rparr>,
           weather_row = \<lparr>shown = Some (service_state w),
                          colour = (if w then ''text-green-600'' else ''text-yellow-600'')\<rparr>\<rparr>"
proof -
  have b: "backendStatus (checkBackendHealth (Responded True (Some h)) st) = Some h" for h
    by (simp add: checkBackendHealth_def addNotification_def Let_def)
  have r: "health_report t w p n =
     \<lparr>health_status = (if t \<and> w \<and> p then ''healthy'' else ''degraded''),
      cache_entries = n,
      services = Some \<lparr>tides_api = service_state t, weather_api = service_state w\<rparr>\<rparr>"
    by (simp add: health_report_def)
  have s: "service_state c \<in> {''configured'', ''missing_credentials''}" for c
    by (simp add: service_state_def)
  have c: "(service_state c = ''configured'') = c" for c
    by (simp add: service_state_def)
  have l: "LocationSettings_backendStatus (Some (health_report t w p n)) =
     Some \<lparr>status_shown = health_status (health_report t w p n),
           cache_entries_shown = cache_entries (health_report t w p n),
           tides_row = \<lparr>shown = Some (service_state t),
                        colour = (if t then ''text-green-600'' else ''text-red-600'')\<rparr>,
           weather_row = \<lparr>shown = Some (service_state w),
                          colour = (if w then ''text-green-600'' else ''text-yellow-600'')\<rparr>\<rparr>"
    by (simp add: LocationSettings_backendStatus_def health_report_def c)
  show ?thesis
    unfolding b using r s l by blast
qed

theorem health_fields_rendered_witness:
  "LocationSettings_backendStatus
       (backendStatus (checkBackendHealth (Responded True (Some (health_report True False True 3)))
                         (initial_app Map.empty))) =
     Some \<lparr>status_shown = ''degraded'',
           cache_entries_shown = 3,
           tides_row = \<lparr>shown = Some ''configured'', colour = ''text-green-600''\<rparr>,
           weather_row = \<lparr>shown = Some ''missing_credentials'', colour = ''text-yellow-600''\<rparr>\<rparr>"
  using health_fields_rendered [of True False True 3 "initial_app Map.empty"]
  by (simp add: health_report_def service_state_def checkBackendHealth_def addNotification_def
        LocationSettings_backendStatus_def Let_def)

subsection \<open>The stored location\<close>

lemma get_property_defined:
  "(\<exists>y. get_property v k = Inr y) \<longleftrightarrow> (v \<noteq> Undefined \<and> v \<noteq> Null)"
  by (cases v) (auto simp add: get_property_def split: option.splits)

lemma stored_location_spec_fresh:
  "storage ''tideApp_location'' = Some stored \<Longrightarrow> JSON_parse stored = Some (Obj props) \<Longrightarrow>
   map_of props ''timestamp'' = Some (Number t) \<Longrightarrow>
   stored_location_spec JSON_parse coerce now storage =
     (if of_int now - t < 3600000
      then (case map_of props ''coords'' of None \<Rightarrow> Undefined | Some c \<Rightarrow> c)
      else Null)"
  by (simp add: stored_location_spec_def get_property_def ToNumber_def split: option.splits)

lemma stored_location_spec_no_entry:
  "storage ''tideApp_location'' = None \<Longrightarrow> stored_location_spec JSON_parse coerce now storage = Null"
  by (simp add: stored_location_spec_def)

lemma stored_location_spec_parse_failure:
  "storage ''tideApp_location'' = Some stored \<Longrightarrow> JSON_parse stored = None \<Longrightarrow>
   stored_location_spec JSON_parse coerce now storage = Null"
  by (simp add: stored_location_spec_def)

text \<open>
  C9. \<open>loadStoredLocation\<close> never throws, and it returns the specified value
  (\<open>stored_location_spec\<close>): the stored coordinates when the \<open>tideApp_location\<close> entry
  exists, parses, and has a timestamp less than 3,600,000 ms old, and \<open>null\<close> in every
  other case. \<open>JSON.parse\<close> rejects the empty text.
\<close>

theorem loadStoredLocation_meets_spec:
  assumes "JSON_parse [] = None"
  shows "\<exists>st'. loadStoredLocation JSON_parse coerce now st =
           Inr (stored_location_spec JSON_parse coerce now (localStorage st), st')"
proof (cases "localStorage st ''tideApp_location''")
  case None
  then show ?thesis
    by (simp add: loadStoredLocation_def loadStoredLocation_try_def stored_location_spec_def)
next
  case (Some stored)
  show ?thesis
  proof (cases "JSON_parse stored")
    case None
    with Some show ?thesis
      by (simp add: loadStoredLocation_def loadStoredLocation_try_def stored_location_spec_def)
  next
    case (Some parsed)
    with \<open>JSON_parse [] = None\<close> have ne: "stored \<noteq> []" by auto
    show ?thesis
    proof (cases "get_property parsed ''timestamp''")
      case (Inl e)
      with Some \<open>localStorage st ''tideApp_location'' = Some stored\<close> ne show ?thesis
        by (simp add: loadStoredLocation_def loadStoredLocation_try_def stored_location_spec_def)
    next
      case (Inr ts)
      then obtain coords where c: "get_property parsed ''coords'' = Inr coords"
        using get_property_defined [of parsed "''timestamp''"] get_property_defined [of parsed "''coords''"]
        by auto
      from Some \<open>localStorage st ''tideApp_location'' = Some stored\<close> ne Inr c show ?thesis
        by (cases "ToNumber coerce ts")
           (simp_all add: loadStoredLocation_def loadStoredLocation_try_def stored_location_spec_def Let_def)
    qed
  qed
qed

theorem loadStoredLocation_meets_spec_witness:
  \<open>(\<lambda>s. if s = ''{"coords":{"lat":1,"lon":2},"timestamp":1000}''
        then Some (Obj [(''coords'', Obj [(''lat'', Number 1), (''lon'', Number 2)]),
                        (''timestamp'', Number 1000)])
        else None) [] = None \<and>
   (\<exists>st'. loadStoredLocation
       (\<lambda>s. if s = ''{"coords":{"lat":1,"lon":2},"timestamp":1000}''
        then Some (Obj [(''coords'', Obj [(''lat'', Number 1), (''lon'', Number 2)]),
                        (''timestamp'', Number 1000)])
        else None)
       (\<lambda>v. None) 2000
       (initial_app [''tideApp_location'' \<mapsto> ''{"coords":{"lat":1,"lon":2},"timestamp":1000}''])
     = Inr (Obj [(''lat'', Number 1), (''lon'', Number 2)], st')) \<and>
   (\<exists>st'. loadStoredLocation
       (\<lambda>s. if s = ''{"coords":{"lat":1,"lon":2},"timestamp":1000}''
        then Some (Obj [(''coords'', Obj [(''lat'', Number 1), (''lon'', Number 2)]),
                        (''timestamp'', Number 1000)])
        else None)
       (\<lambda>v. None) 3601000
       (initial_app [''tideApp_location'' \<mapsto> ''{"coords":{"lat":1,"lon":2},"timestamp":1000}''])
     = Inr (Null, st'))\<close>
  using loadStoredLocation_meets_spec
    [of \<open>\<lambda>s. if s = ''{"coords":{"lat":1,"lon":2},"timestamp":1000}''
        then Some (Obj [(''coords'', Obj [(''lat'', Number 1), (''lon'', Number 2)]),
                        (''timestamp'', Number 1000)])
        else None\<close> \<open>\<lambda>v. None\<close> 2000
        \<open>initial_app [''tideApp_location'' \<mapsto> ''{"coords":{"lat":1,"lon":2},"timestamp":1000}'']\<close>]
      loadStoredLocation_meets_spec
    [of \<open>\<lambda>s. if s = ''{"coords":{"lat":1,"lon":2},"timestamp":1000}''
        then Some (Obj [(''coords'', Obj [(''lat'', Number 1), (''lon'', Number 2)]),
                        (''timestamp'', Number 1000)])
        else None\<close> \<open>\<lambda>v. None\<close> 3601000
        \<open>initial_app [''tideApp_location'' \<mapsto> ''{"coords":{"lat":1,"lon":2},"timestamp":1000}'']\<close>]
  by (simp add: stored_location_spec_def get_property_def ToNumber_def initial_app_def)

subsection \<open>Clearing local storage\<close>

text \<open>
  C10. When the user declines the confirmation, \<open>clearAllLocalStorage\<close> leaves local
  storage and the whole application state as they were. When the user confirms, storage is
  emptied and \<open>location\<close>, \<open>tideData\<close>, \<open>autoRefresh\<close> and \<open>refreshInterval\<close> are reset to
  \<open>null\<close>, \<open>null\<close>, \<open>true\<close> and 30 minutes.
\<close>

theorem clearAllLocalStorage_declined_unchanged:
  "clearAllLocalStorage freed_kb False st = st \<and>
   localStorage (clearAllLocalStorage freed_kb True st) = Map.empty \<and>
   location (clearAllLocalStorage freed_kb True st) = Null \<and>
   tideData (clearAllLocalStorage freed_kb True st) = None \<and>
   autoRefresh (clearAllLocalStorage freed_kb True st) = True \<and>
   refreshInterval (clearAllLocalStorage freed_kb True st) = 1800000"
  by (simp add: clearAllLocalStorage_def addNotification_def Let_def)

theorem clearAllLocalStorage_declined_unchanged_witness:
  "clearAllLocalStorage (\<lambda>storage. ''0.1'') False (initial_app [''tideApp_location'' \<mapsto> ''{}'']) =
     initial_app [''tideApp_location'' \<mapsto> ''{}''] \<and>
   localStorage (clearAllLocalStorage (\<lambda>storage. ''0.1'') True
                   (initial_app [''tideApp_location'' \<mapsto> ''{}''])) ''tideApp_location'' = None \<and>
   localStorage (initial_app [''tideApp_location'' \<mapsto> ''{}'']) ''tideApp_location'' = Some ''{}''"
  using clearAllLocalStorage_declined_unchanged
    [of "\<lambda>storage. ''0.1''" "initial_app [''tideApp_location'' \<mapsto> ''{}'']"]
  by (simp add: initial_app_def)

end
